theory Spec2Isabelle
  imports Complex_Main
begin

section \<open>JavaScript strings\<close>

text \<open>
  A string is a list of 8-bit characters (the code units below U+0100). The white
  space of \<^verbatim>\<open>String.prototype.trim\<close>, of \<^verbatim>\<open>\s\<close> and of the
  numeric parsers is, in that range, TAB, LF, VT, FF, CR, SPACE and NBSP; the line
  terminators that \<^verbatim>\<open>.\<close> does not match are LF and CR.
\<close>

definition isWhiteSpace :: "char \<Rightarrow> bool" where
  "isWhiteSpace c =
     (c \<in> set [CHR 0x09, CHR 0x0A, CHR 0x0B, CHR 0x0C, CHR 0x0D, CHR 0x20, CHR 0xA0])"

definition isLineTerminator :: "char \<Rightarrow> bool" where
  "isLineTerminator c = (c \<in> set [CHR 0x0A, CHR 0x0D])"

definition trim :: "string \<Rightarrow> string" where
  "trim s = rev (dropWhile isWhiteSpace (rev (dropWhile isWhiteSpace s)))"

text \<open>\<^verbatim>\<open>s.startsWith(p)\<close>.\<close>

definition startsWith :: "string \<Rightarrow> string \<Rightarrow> bool" where
  "startsWith s p = (take (length p) s = p)"

text \<open>\<^verbatim>\<open>s.split(",")\<close>: the pieces between separators; the empty string gives one
  empty piece.\<close>

fun split_on :: "char \<Rightarrow> string \<Rightarrow> string list" where
  "split_on sep [] = [[]]"
| "split_on sep (c # cs) =
     (if c = sep then [] # split_on sep cs
      else (case split_on sep cs of
              [] \<Rightarrow> [[c]]
            | w # ws \<Rightarrow> (c # w) # ws))"

text \<open>\<^verbatim>\<open>s.split(/\s+/)\<close>: the pieces between maximal runs of white space. \<open>cur\<close> is
  the piece being read, reversed.\<close>

fun split_ws_from :: "string \<Rightarrow> string \<Rightarrow> bool \<Rightarrow> string list" where
  "split_ws_from cur [] in_sep = [rev cur]"
| "split_ws_from cur (c # cs) in_sep =
     (if isWhiteSpace c then
        (if in_sep then split_ws_from cur cs True
         else rev cur # split_ws_from [] cs True)
      else split_ws_from (c # cur) cs False)"

definition split_ws :: "string \<Rightarrow> string list" where
  "split_ws s = split_ws_from [] s False"

text \<open>
  \<^verbatim>\<open>/lit(.*)/.exec(s)\<close> for a literal \<open>lit\<close>: the leftmost occurrence of
  \<open>lit\<close> matches, and group 1 is what follows it up to the first line terminator.
  \<open>None\<close> is JavaScript's \<^verbatim>\<open>null\<close>. The handlers registered without a
  group only use whether the result is \<open>None\<close>.
\<close>

fun regexp_exec :: "string \<Rightarrow> string \<Rightarrow> string option" where
  "regexp_exec lit [] = (if lit = [] then Some [] else None)"
| "regexp_exec lit (c # cs) =
     (if take (length lit) (c # cs) = lit
      then Some (takeWhile (\<lambda>x. \<not> isLineTerminator x) (drop (length lit) (c # cs)))
      else regexp_exec lit cs)"

section \<open>JavaScript numbers\<close>

text \<open>
  \<^verbatim>\<open>number\<close> and \<^verbatim>\<open>BigNumber\<close> values: not-a-number, the two
  infinities, or a finite value kept as the exact rational it denotes. BigNumber
  arithmetic is exact on decimals. The rounding of a decimal to the nearest IEEE-754
  double (in \<^verbatim>\<open>parseFloat\<close> and \<^verbatim>\<open>toNumber\<close>) is not modelled: the
  model agrees with the engine wherever the values are doubles, and no statement below
  depends on a rounded value. Negative zero is zero.
\<close>

datatype jsnum = NaN | PosInf | NegInf | Fin rat

definition isNaN :: "jsnum \<Rightarrow> bool" where
  "isNaN x = (x = NaN)"

text \<open>Truthiness of an optional number: \<^verbatim>\<open>undefined\<close>, \<^verbatim>\<open>NaN\<close> and
  \<^verbatim>\<open>0\<close> are falsy.\<close>

fun truthy_num :: "jsnum option \<Rightarrow> bool" where
  "truthy_num None = False"
| "truthy_num (Some NaN) = False"
| "truthy_num (Some (Fin q)) = (q \<noteq> 0)"
| "truthy_num (Some _) = True"

fun is_zero :: "jsnum \<Rightarrow> bool" where
  "is_zero (Fin q) = (q = 0)"
| "is_zero _ = False"

fun is_negative :: "jsnum \<Rightarrow> bool" where
  "is_negative (Fin q) = (q < 0)"
| "is_negative NegInf = True"
| "is_negative _ = False"

text \<open>\<^verbatim>\<open>x.times(y)\<close>: not-a-number when an operand is, or when one is zero and
  the other infinite.\<close>

fun times :: "jsnum \<Rightarrow> jsnum \<Rightarrow> jsnum" where
  "times NaN y = NaN"
| "times x NaN = NaN"
| "times (Fin a) (Fin b) = Fin (a * b)"
| "times x y =
     (if is_zero x \<or> is_zero y then NaN
      else if is_negative x = is_negative y then PosInf else NegInf)"

text \<open>\<^verbatim>\<open>x.isLessThanOrEqualTo(0)\<close>.\<close>

fun isLessThanOrEqualTo_0 :: "jsnum \<Rightarrow> bool" where
  "isLessThanOrEqualTo_0 (Fin q) = (q \<le> 0)"
| "isLessThanOrEqualTo_0 NegInf = True"
| "isLessThanOrEqualTo_0 _ = False"

text \<open>\<^verbatim>\<open>Math.floor\<close>.\<close>

fun Math_floor :: "jsnum \<Rightarrow> jsnum" where
  "Math_floor (Fin q) = Fin (of_int (floor q))"
| "Math_floor x = x"

text \<open>\<^verbatim>\<open>x.toNumber()\<close>, see above.\<close>

definition toNumber :: "jsnum \<Rightarrow> jsnum" where
  "toNumber x = x"

subsection \<open>parseInt and parseFloat\<close>

definition digit_value :: "char \<Rightarrow> nat" where
  "digit_value c =
     (let n = (of_char c :: nat) in
      if 48 \<le> n \<and> n \<le> 57 then n - 48
      else if 97 \<le> n \<and> n \<le> 122 then n - 87
      else if 65 \<le> n \<and> n \<le> 90 then n - 55
      else 36)"

definition isRadixDigit :: "nat \<Rightarrow> char \<Rightarrow> bool" where
  "isRadixDigit R c = (digit_value c < R)"

definition digits_value :: "nat \<Rightarrow> string \<Rightarrow> nat" where
  "digits_value R ds = foldl (\<lambda>acc c. acc * R + digit_value c) 0 ds"

text \<open>
  \<^verbatim>\<open>parseInt(s)\<close> with no radix: leading white space is skipped, a sign is read, a
  \<^verbatim>\<open>0x\<close> prefix selects radix 16, and the longest run of digits is the value;
  \<open>None\<close> is \<^verbatim>\<open>NaN\<close> (no digit to read).
\<close>

definition parseInt :: "string \<Rightarrow> int option" where
  "parseInt s =
     (let s1 = dropWhile isWhiteSpace s;
          negative = startsWith s1 ''-'';
          s2 = (if startsWith s1 ''+'' \<or> startsWith s1 ''-'' then drop 1 s1 else s1);
          hex = (startsWith s2 ''0x'' \<or> startsWith s2 ''0X'');
          R = (if hex then 16 else 10);
          s3 = (if hex then drop 2 s2 else s2);
          Z = takeWhile (isRadixDigit R) s3
      in if Z = [] then None
         else Some ((if negative then - 1 else 1) * int (digits_value R Z)))"

text \<open>The exponent part of a decimal literal: \<^verbatim>\<open>e\<close> or \<^verbatim>\<open>E\<close>, an
  optional sign and at least one digit; anything else is no exponent.\<close>

definition exponent_part :: "string \<Rightarrow> int" where
  "exponent_part s =
     (if startsWith s ''e'' \<or> startsWith s ''E'' then
        (let s1 = drop 1 s;
             negative = startsWith s1 ''-'';
             s2 = (if startsWith s1 ''+'' \<or> startsWith s1 ''-'' then drop 1 s1 else s1);
             ds = takeWhile (isRadixDigit 10) s2
         in (if negative then - 1 else 1) * int (digits_value 10 ds))
      else 0)"

text \<open>
  \<^verbatim>\<open>parseFloat(s)\<close>: leading white space is skipped and the longest prefix that is
  a decimal literal (a sign, then \<^verbatim>\<open>Infinity\<close> or digits with an optional
  fraction and exponent) is the value; \<^verbatim>\<open>NaN\<close> when there is none.
\<close>

definition parseFloat :: "string \<Rightarrow> jsnum" where
  "parseFloat s =
     (let s1 = dropWhile isWhiteSpace s;
          negative = startsWith s1 ''-'';
          s2 = (if startsWith s1 ''+'' \<or> startsWith s1 ''-'' then drop 1 s1 else s1)
      in if startsWith s2 ''Infinity'' then (if negative then NegInf else PosInf)
         else
           (let ip = takeWhile (isRadixDigit 10) s2;
                r1 = dropWhile (isRadixDigit 10) s2;
                fp = (if startsWith r1 ''.'' then takeWhile (isRadixDigit 10) (drop 1 r1) else []);
                r2 = (if startsWith r1 ''.'' then dropWhile (isRadixDigit 10) (drop 1 r1) else r1);
                m = of_nat (digits_value 10 ip) + of_nat (digits_value 10 fp) / 10 ^ length fp;
                e = exponent_part r2
            in if ip = [] \<and> fp = [] then NaN
               else Fin ((if negative then - 1 else 1) * m *
                         (if 0 \<le> e then 10 ^ nat e else 1 / 10 ^ nat (- e)))))"

section \<open>The data model (types.ts)\<close>

datatype CommandType = Buy | Sell

record CommandPayload =
  token :: string
  amount :: "jsnum option"

record SwapParams =
  address :: string
  tokenToReceive :: string
  tokenToSend :: string
  minAmountToReceive :: jsnum
  amountToSend :: jsnum

record BondingMetadata =
  first_token_id :: string
  bech32 :: string

record TokenBalance =
  token_identifier :: string
  balance :: jsnum
  decimals :: nat

text \<open>
  \<open>token_identifier\<close> is the field \<^verbatim>\<open>identifier\<close> of the account API,
  \<open>bech32\<close> is what \<^verbatim>\<open>item.address.bech32()\<close> returns, \<open>balance\<close> the value
  \<^verbatim>\<open>new BigNumber(tokenBalance.balance)\<close> reads from the balance text of the
  account API (\<open>NaN\<close> when the text is not a number).
\<close>

text \<open>The argument of \<^verbatim>\<open>wallet.callContract\<close>; the fields of an attached
  transfer are \<^verbatim>\<open>amount\<close>, \<^verbatim>\<open>nonce\<close> and \<^verbatim>\<open>id\<close> in the source.\<close>

record esdt =
  esdt_amount :: jsnum
  esdt_nonce :: int
  esdt_id :: string

datatype func_arg = Str string | U jsnum

record call_spec =
  callee :: string
  gasLimit :: int
  funcName :: string
  esdts :: "esdt list"
  funcArgs :: "func_arg list"

record tx_result =
  explorerUrl :: "string option"

text \<open>A message of the chat, as the handlers read it: \<^verbatim>\<open>msg.chat.id\<close> and the
  optional \<^verbatim>\<open>msg.text\<close>.\<close>

record message =
  chat_id :: int
  msg_text :: "string option"

section \<open>Effects\<close>

text \<open>A thrown \<^verbatim>\<open>Error\<close> with its message.\<close>

datatype js_error = Error (message: string)

text \<open>
  The texts the bot sends, one constructor per template of the source, with the values
  the template interpolates:
  \<^item> \<open>Unauthorized\<close>: "Unauthorized access. This bot is private.";
  \<^item> \<open>HelpText\<close>: the list of commands;
  \<^item> \<open>UsageErrorText c\<close>: "Invalid command format. Usage: /c <token> [amount] ...";
  \<^item> \<open>InvalidAmountProvided\<close>: "Invalid amount provided";
  \<^item> \<open>Welcome w\<close> and \<open>WelcomeError\<close>: the two replies of /start;
  \<^item> \<open>AddressBalances w bs\<close> and \<open>AddressError\<close>: the two replies of /address;
  \<^item> \<open>Processing c t\<close>: "Processing c order for token: t...";
  \<^item> \<open>FoundContract a b\<close>: "Found trading contract: a...b";
  \<^item> \<open>Submitting\<close>: "Submitting transaction to blockchain...";
  \<^item> \<open>TransactionSuccessful u\<close>: "Transaction successful! View on explorer: u";
  \<^item> \<open>TransactionFailed m\<close>: "Transaction failed: m";
  \<^item> \<open>ErrorProcessing c m\<close>: "Error processing c order: m";
  \<^item> \<open>YourChatId n\<close>: "Your Chat ID is: n ...".
\<close>

datatype chat_text =
    Unauthorized
  | HelpText
  | UsageErrorText CommandType
  | InvalidAmountProvided
  | Welcome string
  | WelcomeError
  | AddressBalances string "TokenBalance list"
  | AddressError
  | Processing CommandType string
  | FoundContract string string
  | Submitting
  | TransactionSuccessful string
  | TransactionFailed string
  | ErrorProcessing CommandType string
  | YourChatId int

text \<open>
  What a run does, in order: the messages it sends, the lines it logs, and the calls it
  makes to the remote query client (\<open>QueryContract address function\<close>), the account
  API (\<open>ApiGet path\<close>), and the wallet (\<open>LoadWallet\<close>, \<open>CallContract spec\<close>).
\<close>

datatype event =
    SendMessage int chat_text
  | ConsoleWarn string
  | ConsoleLog string
  | ConsoleError string string
  | QueryContract string string
  | ApiGet string
  | LoadWallet
  | CallContract call_spec

text \<open>
  The external collaborators: what the remote query returns
  (\<^verbatim>\<open>result.firstValue?.valueOf()\<close>, \<open>None\<close> when \<^verbatim>\<open>firstValue\<close> is
  undefined) or throws, what the account API returns for a path, the address of the
  wallet file or the error of loading it (the same at every load of one order), and the
  result of a contract call.
\<close>

record env =
  queryContract :: "js_error + BondingMetadata list option"
  api_get :: "string \<Rightarrow> js_error + TokenBalance list"
  newWalletFromFile :: "js_error + string"
  callContract :: "call_spec \<Rightarrow> js_error + tx_result"

text \<open>A computation: the events it made, and the error it threw or its value.\<close>

type_synonym 'a io = "event list \<times> (js_error + 'a)"

definition ret :: "'a \<Rightarrow> 'a io" where
  "ret x = ([], Inr x)"

definition throw :: "js_error \<Rightarrow> 'a io" where
  "throw e = ([], Inl e)"

definition emit :: "event \<Rightarrow> unit io" where
  "emit ev = ([ev], Inr ())"

definition call :: "event \<Rightarrow> js_error + 'a \<Rightarrow> 'a io" where
  "call ev r = ([ev], r)"

definition bind :: "'a io \<Rightarrow> ('a \<Rightarrow> 'b io) \<Rightarrow> 'b io" where
  "bind m f =
     (case m of
        (t, Inl e) \<Rightarrow> (t, Inl e)
      | (t, Inr x) \<Rightarrow> (case f x of (t', r) \<Rightarrow> (t @ t', r)))"

definition try_catch :: "'a io \<Rightarrow> (js_error \<Rightarrow> 'a io) \<Rightarrow> 'a io" where
  "try_catch m h =
     (case m of
        (t, Inl e) \<Rightarrow> (case h e of (t', r) \<Rightarrow> (t @ t', r))
      | (t, Inr x) \<Rightarrow> (t, Inr x))"

definition sendMessage :: "int \<Rightarrow> chat_text \<Rightarrow> unit io" where
  "sendMessage chatId txt = emit (SendMessage chatId txt)"

section \<open>The query helper (scQuery)\<close>

text \<open>The query is built and sent; an error is logged and thrown again.\<close>

definition scQuery :: "env \<Rightarrow> string \<Rightarrow> string \<Rightarrow> BondingMetadata list option io" where
  "scQuery env strAddress func =
     try_catch (call (QueryContract strAddress func) (queryContract env))
       (\<lambda>error. bind (emit (ConsoleLog (''query error for '' @ func @ ''  : , error'')))
          (\<lambda>_. throw error))"

section \<open>The bot (class TradingBot)\<close>

text \<open>
  The listeners a bot can register: the \<^verbatim>\<open>message\<close> middleware and the text
  handlers, each with the literal of its regular expression.
\<close>

datatype handler = OnMessage | OnHelp | OnBuy | OnSell | OnStart | OnAddress | OnChatId

fun regexp_of :: "handler \<Rightarrow> string" where
  "regexp_of OnMessage = []"
| "regexp_of OnHelp = ''/help''"
| "regexp_of OnBuy = ''/buy''"
| "regexp_of OnSell = ''/sell''"
| "regexp_of OnStart = ''/start''"
| "regexp_of OnAddress = ''/address''"
| "regexp_of OnChatId = ''/chatid''"

record TradingBot =
  authorizedChatIds :: "int set"
  listeners :: "handler list"

text \<open>What \<^verbatim>\<open>setupCommandHandlers\<close> and \<^verbatim>\<open>setupAdditionalCommands\<close>
  register, in order.\<close>

definition setupCommandHandlers :: "handler list" where
  "setupCommandHandlers = [OnMessage, OnHelp, OnBuy, OnSell, OnStart, OnAddress]"

definition setupAdditionalCommands :: "handler list" where
  "setupAdditionalCommands = [OnChatId]"

text \<open>
  The constructor. Its argument is the environment variable
  \<^verbatim>\<open>TELEGRAM_CHATS_IDS\<close>, \<open>None\<close> when unset. It calls
  \<^verbatim>\<open>setupCommandHandlers\<close> and nothing else.
\<close>

definition chatIds_of :: "string \<Rightarrow> int list" where
  "chatIds_of chatIdsStr =
     map the (filter (\<lambda>id. id \<noteq> None)
       (map (\<lambda>id. parseInt (trim id)) (split_on (CHR '','') chatIdsStr)))"

definition new_TradingBot :: "string option \<Rightarrow> TradingBot" where
  "new_TradingBot TELEGRAM_CHATS_IDS =
     (let chatIdsStr = (case TELEGRAM_CHATS_IDS of None \<Rightarrow> [] | Some s \<Rightarrow> s)
      in \<lparr>authorizedChatIds = set (chatIds_of chatIdsStr),
          listeners = setupCommandHandlers\<rparr>)"

definition no_authorized_warning :: string where
  "no_authorized_warning =
     ''No authorized chat IDs configured. Bot is currently accessible to everyone.''"

text \<open>\<^verbatim>\<open>isAuthorized\<close>: the lines it logs and its result.\<close>

definition isAuthorized :: "TradingBot \<Rightarrow> int \<Rightarrow> event list \<times> bool" where
  "isAuthorized this chatId =
     (if authorizedChatIds this = {} then ([ConsoleWarn no_authorized_warning], True)
      else ([], chatId \<in> authorizedChatIds this))"

definition loadWallet :: "env \<Rightarrow> string io" where
  "loadWallet env = call LoadWallet (newWalletFromFile env)"

definition get_tokens :: "env \<Rightarrow> string \<Rightarrow> TokenBalance list io" where
  "get_tokens env wallet =
     (let path = ''/accounts/'' @ wallet @ ''/tokens''
      in call (ApiGet path) (api_get env path))"

text \<open>\<^verbatim>\<open>new BigNumber(x)\<close> of an optional number.\<close>

fun BigNumber :: "jsnum option \<Rightarrow> jsnum" where
  "BigNumber None = NaN"
| "BigNumber (Some x) = x"

definition swapToken :: "env \<Rightarrow> SwapParams \<Rightarrow> tx_result io" where
  "swapToken env params =
     bind (loadWallet env) (\<lambda>wallet.
       (let spec = \<lparr>callee = address params,
                    gasLimit = 10000000,
                    funcName = ''swap'',
                    esdts = [\<lparr>esdt_amount = Math_floor (amountToSend params),
                              esdt_nonce = 0,
                              esdt_id = tokenToSend params\<rparr>],
                    funcArgs = [Str (tokenToReceive params), U (minAmountToReceive params)]\<rparr>
        in call (CallContract spec) (callContract env spec)))"

definition master_address :: string where
  "master_address = ''erd1qqqqqqqqqqqqqpgqg0sshhkwaxz8fxu47z4svrmp48mzydjlptzsdhxjpd''"

text \<open>The message of the TypeError of \<^verbatim>\<open>data.find\<close> on an undefined
  \<^verbatim>\<open>data\<close>.\<close>

definition undefined_find_message :: string where
  "undefined_find_message = ''Cannot read properties of undefined (reading 'find')''"

definition findContractAddress :: "env \<Rightarrow> string \<Rightarrow> string io" where
  "findContractAddress env tokenId =
     try_catch
       (bind (scQuery env master_address ''getAllBondingMetadata'') (\<lambda>result.
          (case result of
             None \<Rightarrow> throw (Error undefined_find_message)
           | Some data \<Rightarrow>
               (case find (\<lambda>contract. first_token_id contract = tokenId) data of
                  None \<Rightarrow> throw (Error (''No contract found for token '' @ tokenId))
                | Some matchingContract \<Rightarrow> ret (bech32 matchingContract)))))
       (\<lambda>error.
          bind (emit (ConsoleError ''Error finding contract address:'' (message error))) (\<lambda>_.
          throw (Error (''Failed to find contract for token '' @ tokenId @ '': '' @
                        message error))))"

definition base_token :: string where
  "base_token = ''ONE-f9954f''"

definition url_not_available :: string where
  "url_not_available = ''Transaction submitted (URL not available)''"

text \<open>\<^verbatim>\<open>result.explorerUrl || "..."\<close>: an undefined or empty URL gives the
  default.\<close>

definition txUrl_of :: "tx_result \<Rightarrow> string" where
  "txUrl_of result =
     (case explorerUrl result of
        None \<Rightarrow> url_not_available
      | Some u \<Rightarrow> if u = [] then url_not_available else u)"

text \<open>The amounts of \<^verbatim>\<open>handleBuy\<close> and \<^verbatim>\<open>handleSell\<close>, and their
  check.\<close>

definition amountToPay :: "CommandPayload \<Rightarrow> TokenBalance \<Rightarrow> jsnum" where
  "amountToPay payload tokenBalance =
     (if truthy_num (amount payload)
      then times (BigNumber (amount payload)) (Fin (10 ^ 18))
      else times (balance tokenBalance) (Fin (98 / 100)))"

definition amountToSell :: "CommandPayload \<Rightarrow> TokenBalance \<Rightarrow> jsnum" where
  "amountToSell payload tokenBalance =
     (if truthy_num (amount payload)
      then times (BigNumber (amount payload)) (Fin (10 ^ decimals tokenBalance))
      else times (balance tokenBalance) (Fin (98 / 100)))"

definition invalid_amount :: "jsnum \<Rightarrow> bool" where
  "invalid_amount x = (isNaN x \<or> isLessThanOrEqualTo_0 x)"

text \<open>The body of the \<^verbatim>\<open>try\<close> block of \<^verbatim>\<open>handleBuy\<close>.\<close>

definition handleBuy_try :: "env \<Rightarrow> int \<Rightarrow> CommandPayload \<Rightarrow> unit io" where
  "handleBuy_try env chatId payload =
     bind (sendMessage chatId (Processing Buy (token payload))) (\<lambda>_.
     bind (findContractAddress env (token payload)) (\<lambda>contractAddress.
     bind (sendMessage chatId
             (FoundContract (take 8 contractAddress)
                (drop (length contractAddress - 4) contractAddress))) (\<lambda>_.
     bind (loadWallet env) (\<lambda>wallet.
     bind (get_tokens env wallet) (\<lambda>data.
       (case find (\<lambda>t. token_identifier t = base_token) data of
          None \<Rightarrow> throw (Error (''Token '' @ base_token @ '' not found in wallet''))
        | Some tokenBalance \<Rightarrow>
            if invalid_amount (amountToPay payload tokenBalance)
            then throw (Error ''Invalid amount calculated'')
            else
              bind (sendMessage chatId Submitting) (\<lambda>_.
              bind (swapToken env
                      \<lparr>address = contractAddress,
                       tokenToReceive = token payload,
                       tokenToSend = base_token,
                       minAmountToReceive = toNumber (Fin 1),
                       amountToSend = toNumber (amountToPay payload tokenBalance)\<rparr>) (\<lambda>result.
              sendMessage chatId (TransactionSuccessful (txUrl_of result))))))))))"

definition handleBuy :: "env \<Rightarrow> int \<Rightarrow> CommandPayload \<Rightarrow> unit io" where
  "handleBuy env chatId payload =
     try_catch (handleBuy_try env chatId payload)
       (\<lambda>error.
          bind (emit (ConsoleError ''Error in buyToken:'' (message error))) (\<lambda>_.
          bind (sendMessage chatId (TransactionFailed (message error))) (\<lambda>_.
          throw error)))"

text \<open>The body of the \<^verbatim>\<open>try\<close> block of \<^verbatim>\<open>handleSell\<close>.\<close>

definition handleSell_try :: "env \<Rightarrow> int \<Rightarrow> CommandPayload \<Rightarrow> unit io" where
  "handleSell_try env chatId payload =
     bind (sendMessage chatId (Processing Sell (token payload))) (\<lambda>_.
     bind (findContractAddress env (token payload)) (\<lambda>contractAddress.
     bind (sendMessage chatId
             (FoundContract (take 8 contractAddress)
                (drop (length contractAddress - 4) contractAddress))) (\<lambda>_.
     bind (loadWallet env) (\<lambda>wallet.
     bind (get_tokens env wallet) (\<lambda>data.
       (case find (\<lambda>t. token_identifier t = token payload) data of
          None \<Rightarrow> throw (Error (''Token '' @ token payload @ '' not found in wallet''))
        | Some tokenBalance \<Rightarrow>
            if invalid_amount (amountToSell payload tokenBalance)
            then throw (Error ''Invalid amount calculated'')
            else
              bind (sendMessage chatId Submitting) (\<lambda>_.
              bind (swapToken env
                      \<lparr>address = contractAddress,
                       tokenToReceive = base_token,
                       tokenToSend = token payload,
                       minAmountToReceive = toNumber (Fin 1),
                       amountToSend = toNumber (amountToSell payload tokenBalance)\<rparr>) (\<lambda>result.
              sendMessage chatId (TransactionSuccessful (txUrl_of result))))))))))"

definition handleSell :: "env \<Rightarrow> int \<Rightarrow> CommandPayload \<Rightarrow> unit io" where
  "handleSell env chatId payload =
     try_catch (handleSell_try env chatId payload)
       (\<lambda>error.
          bind (emit (ConsoleError ''Error in sellToken:'' (message error))) (\<lambda>_.
          bind (sendMessage chatId (TransactionFailed (message error))) (\<lambda>_.
          throw error)))"

definition handleCommand ::
  "env \<Rightarrow> CommandType \<Rightarrow> message \<Rightarrow> string \<Rightarrow> jsnum option \<Rightarrow> unit io" where
  "handleCommand env command msg tok amt =
     (let chatId = chat_id msg;
          payload = \<lparr>token = tok, amount = amt\<rparr>
      in try_catch
           (case command of
              Buy \<Rightarrow> handleBuy env chatId payload
            | Sell \<Rightarrow> handleSell env chatId payload)
           (\<lambda>error. sendMessage chatId (ErrorProcessing command (message error))))"

subsection \<open>The listeners\<close>

text \<open>The middleware on every message.\<close>

definition on_message :: "TradingBot \<Rightarrow> message \<Rightarrow> event list" where
  "on_message this msg =
     (case isAuthorized this (chat_id msg) of
        (logged, authorized) \<Rightarrow>
          logged @
          (if \<not> authorized \<and>
              (case msg_text msg of None \<Rightarrow> False | Some t \<Rightarrow> startsWith t ''/'')
           then [SendMessage (chat_id msg) Unauthorized]
           else []))"

definition sendUsageError :: "int \<Rightarrow> CommandType \<Rightarrow> event list" where
  "sendUsageError chatId command = [SendMessage chatId (UsageErrorText command)]"

text \<open>
  The validation of the buy and sell handlers, on group 1 of the match: the reply that
  ends the handler, or the token and amount handed to \<^verbatim>\<open>handleCommand\<close>.
\<close>

definition validate :: "CommandType \<Rightarrow> string \<Rightarrow> chat_text + CommandPayload" where
  "validate command match1 =
     (if match1 = [] then Inl (UsageErrorText command)
      else
        (case split_ws (trim match1) of
           [] \<Rightarrow> Inl (UsageErrorText command)
         | tok # rest \<Rightarrow>
             (let amountStr = (case rest of [] \<Rightarrow> None | a # _ \<Rightarrow> Some a);
                  amt = (case amountStr of
                           None \<Rightarrow> None
                         | Some a \<Rightarrow> if a = [] then None else Some (parseFloat a))
              in (case amt of
                    None \<Rightarrow> Inr \<lparr>token = tok, amount = amt\<rparr>
                  | Some x \<Rightarrow>
                      if isNaN x then Inl InvalidAmountProvided
                      else Inr \<lparr>token = tok, amount = amt\<rparr>))))"

definition on_order ::
  "TradingBot \<Rightarrow> env \<Rightarrow> CommandType \<Rightarrow> message \<Rightarrow> string \<Rightarrow> event list" where
  "on_order this env command msg match1 =
     (case isAuthorized this (chat_id msg) of
        (logged, authorized) \<Rightarrow>
          logged @
          (if \<not> authorized then []
           else
             (case validate command match1 of
                Inl reply \<Rightarrow> [SendMessage (chat_id msg) reply]
              | Inr payload \<Rightarrow>
                  fst (handleCommand env command msg (token payload) (amount payload)))))"

definition on_help :: "TradingBot \<Rightarrow> message \<Rightarrow> event list" where
  "on_help this msg =
     (case isAuthorized this (chat_id msg) of
        (logged, authorized) \<Rightarrow>
          logged @ (if \<not> authorized then [] else [SendMessage (chat_id msg) HelpText]))"

definition on_start :: "TradingBot \<Rightarrow> env \<Rightarrow> message \<Rightarrow> event list" where
  "on_start this env msg =
     (case isAuthorized this (chat_id msg) of
        (logged, authorized) \<Rightarrow>
          logged @
          (if \<not> authorized then []
           else fst (try_catch
                  (bind (loadWallet env) (\<lambda>wallet.
                     sendMessage (chat_id msg) (Welcome wallet)))
                  (\<lambda>error. sendMessage (chat_id msg) WelcomeError))))"

definition on_address :: "TradingBot \<Rightarrow> env \<Rightarrow> message \<Rightarrow> event list" where
  "on_address this env msg =
     (case isAuthorized this (chat_id msg) of
        (logged, authorized) \<Rightarrow>
          logged @
          (if \<not> authorized then []
           else fst (try_catch
                  (bind (loadWallet env) (\<lambda>wallet.
                   bind (get_tokens env wallet) (\<lambda>data.
                     sendMessage (chat_id msg) (AddressBalances wallet data))))
                  (\<lambda>error. sendMessage (chat_id msg) AddressError))))"

definition on_chatid :: "message \<Rightarrow> event list" where
  "on_chatid msg = [SendMessage (chat_id msg) (YourChatId (chat_id msg))]"

fun callback :: "TradingBot \<Rightarrow> env \<Rightarrow> handler \<Rightarrow> message \<Rightarrow> string \<Rightarrow> event list" where
  "callback this env OnMessage msg match1 = []"
| "callback this env OnHelp msg match1 = on_help this msg"
| "callback this env OnBuy msg match1 = on_order this env Buy msg match1"
| "callback this env OnSell msg match1 = on_order this env Sell msg match1"
| "callback this env OnStart msg match1 = on_start this env msg"
| "callback this env OnAddress msg match1 = on_address this env msg"
| "callback this env OnChatId msg match1 = on_chatid msg"

text \<open>
  The dispatch of the chat library for one inbound message: the \<^verbatim>\<open>message\<close>
  listeners run, then, when the message has a non-empty text, every text handler whose
  regular expression matches it, in the order of registration. The events of one
  handler are kept together.
\<close>

definition processUpdate :: "TradingBot \<Rightarrow> env \<Rightarrow> message \<Rightarrow> event list" where
  "processUpdate this env msg =
     concat (map (\<lambda>h. on_message this msg) (filter (\<lambda>h. h = OnMessage) (listeners this))) @
     (case msg_text msg of
        None \<Rightarrow> []
      | Some t \<Rightarrow>
          if t = [] then []
          else concat (map (\<lambda>h. case regexp_exec (regexp_of h) t of
                                    None \<Rightarrow> []
                                  | Some match1 \<Rightarrow> callback this env h msg match1)
                           (filter (\<lambda>h. h \<noteq> OnMessage) (listeners this))))"

text \<open>
  A sequence of inbound messages. No listener assigns a field of the bot, so the bot
  after the run is the bot before it.
\<close>

definition processUpdates :: "TradingBot \<Rightarrow> env \<Rightarrow> message list \<Rightarrow> TradingBot \<times> event list" where
  "processUpdates this env msgs = (this, concat (map (processUpdate this env) msgs))"

text \<open>The contract calls of a run, in order.\<close>

fun contract_calls :: "event list \<Rightarrow> call_spec list" where
  "contract_calls [] = []"
| "contract_calls (CallContract spec # evs) = spec # contract_calls evs"
| "contract_calls (ev # evs) = contract_calls evs"





section \<open>Sample data\<close>

definition example_wallet :: "TokenBalance list" where
  "example_wallet =
     [\<lparr>token_identifier = ''ONE-f9954f'', balance = Fin 1000, decimals = 18\<rparr>,
      \<lparr>token_identifier = ''TKN-1'', balance = Fin 500, decimals = 6\<rparr>]"


definition example_metadata :: "BondingMetadata list" where
  "example_metadata =
     [\<lparr>first_token_id = ''TKN-1'', bech32 = ''erd1qqqqqqqqqqfirst''\<rparr>,
      \<lparr>first_token_id = ''TKN-2'', bech32 = ''erd1qqqqqqqqqqother''\<rparr>,
      \<lparr>first_token_id = ''TKN-1'', bech32 = ''erd1qqqqqqqqqsecond''\<rparr>]"

text \<open>Collaborators that all succeed, for a wallet holding \<open>data\<close>.\<close>

definition example_env :: "TokenBalance list \<Rightarrow> env" where
  "example_env data =
     \<lparr>queryContract = Inr (Some example_metadata),
      api_get = (\<lambda>path. Inr data),
      newWalletFromFile = Inr ''erd1wallet'',
      callContract = (\<lambda>spec. Inr \<lparr>explorerUrl = Some ''https://explorer/tx''\<rparr>)\<rparr>"


section \<open>Sequencing lemmas\<close>

lemma bind_emit [simp]: "bind (emit ev) f = (ev # fst (f ()), snd (f ()))"
  by (simp add: bind_def emit_def split: prod.splits)

lemma bind_sendMessage [simp]:
  "bind (sendMessage c txt) f = (SendMessage c txt # fst (f ()), snd (f ()))"
  by (simp add: sendMessage_def)

lemma bind_call [simp]:
  "bind (call ev r) f =
     (case r of Inl e \<Rightarrow> ([ev], Inl e) | Inr x \<Rightarrow> (ev # fst (f x), snd (f x)))"
  by (simp add: bind_def call_def split: prod.splits sum.splits)

lemma bind_throw [simp]: "bind (throw e) f = ([], Inl e)"
  by (simp add: bind_def throw_def)

lemma bind_ret [simp]: "bind (ret x) f = f x"
  by (simp add: bind_def ret_def split: prod.splits)

lemma bind_pair [simp]:
  "bind (t, r) f = (case r of Inl e \<Rightarrow> (t, Inl e) | Inr x \<Rightarrow> (t @ fst (f x), snd (f x)))"
  by (simp add: bind_def split: prod.splits sum.splits)

lemma try_catch_pair [simp]:
  "try_catch (t, r) h =
     (case r of Inl e \<Rightarrow> (t @ fst (h e), snd (h e)) | Inr x \<Rightarrow> (t, Inr x))"
  by (simp add: try_catch_def split: prod.splits sum.splits)

lemma scQuery_eq:
  "scQuery env a f =
     (case queryContract env of
        Inl e \<Rightarrow>
          ([QueryContract a f, ConsoleLog (''query error for '' @ f @ ''  : , error'')], Inl e)
      | Inr d \<Rightarrow> ([QueryContract a f], Inr d))"
  by (simp add: scQuery_def call_def throw_def split: sum.splits)

lemma contract_calls_append [simp]:
  "contract_calls (xs @ ys) = contract_calls xs @ contract_calls ys"
  by (induction xs rule: contract_calls.induct) simp_all











section \<open>Authorization\<close>

text \<open>
  C2. For every chat id, \<^verbatim>\<open>isAuthorized\<close> returns true if and only if the set of
  authorized chats is empty or contains the chat id; when the set is empty the warning
  is logged on every check, and nothing is logged otherwise.
\<close>

theorem isAuthorized_iff:
  "snd (isAuthorized this chatId) =
     (authorizedChatIds this = {} \<or> chatId \<in> authorizedChatIds this) \<and>
   fst (isAuthorized this chatId) =
     (if authorizedChatIds this = {} then [ConsoleWarn no_authorized_warning] else [])"
  by (simp add: isAuthorized_def)

lemma set_chatIds_of:
  "set (chatIds_of s) =
     {n. \<exists>e \<in> set (split_on (CHR '','') s). parseInt (trim e) = Some n}"
  unfolding chatIds_of_def by (auto simp: image_iff) force

text \<open>
  C10. The constructor splits the configuration string on commas and keeps the integer
  that \<^verbatim>\<open>parseInt\<close> reads from each trimmed entry, dropping the entries it reads
  no number from. When no entry parses, the set is empty and every chat is authorized.
  A run of the bot leaves the set as the constructor built it.
\<close>

theorem authorizedChatIds_built:
  "authorizedChatIds (new_TradingBot v) =
     {n. \<exists>e \<in> set (split_on (CHR '','') (case v of None \<Rightarrow> [] | Some s \<Rightarrow> s)).
           parseInt (trim e) = Some n} \<and>
   ((\<forall>e \<in> set (split_on (CHR '','') (case v of None \<Rightarrow> [] | Some s \<Rightarrow> s)).
       parseInt (trim e) = None) \<longrightarrow>
      authorizedChatIds (new_TradingBot v) = {} \<and>
      (\<forall>chatId. snd (isAuthorized (new_TradingBot v) chatId))) \<and>
   authorizedChatIds (fst (processUpdates (new_TradingBot v) env msgs)) =
     authorizedChatIds (new_TradingBot v)"
proof -
  let ?entries = "split_on (CHR '','') (case v of None \<Rightarrow> [] | Some s \<Rightarrow> s)"
  have built: "authorizedChatIds (new_TradingBot v) =
     {n. \<exists>e \<in> set ?entries. parseInt (trim e) = Some n}"
    by (simp add: new_TradingBot_def set_chatIds_of Let_def)
  have "authorizedChatIds (new_TradingBot v) = {}"
    if "\<forall>e \<in> set ?entries. parseInt (trim e) = None"
    using that built by auto
  then show ?thesis
    using built by (simp add: isAuthorized_def processUpdates_def)
qed

theorem authorizedChatIds_built_witness:
  "authorizedChatIds (new_TradingBot (Some ''abc, x1,'')) = {} \<and>
   snd (isAuthorized (new_TradingBot (Some ''abc, x1,'')) 42) \<and>
   authorizedChatIds (new_TradingBot (Some ''123, 0x1f,-7,,abc'')) = {123, 31, - 7}"
proof -
  have none: "\<forall>e \<in> set (split_on (CHR '','')
                  (case Some ''abc, x1,'' of None \<Rightarrow> [] | Some s \<Rightarrow> s)).
                parseInt (trim e) = None"
    by (simp add: parseInt_def trim_def isWhiteSpace_def startsWith_def isRadixDigit_def
        digit_value_def Let_def)
  have ids: "chatIds_of ''123, 0x1f,-7,,abc'' = [123, 31, - 7]"
    by (simp add: chatIds_of_def parseInt_def trim_def isWhiteSpace_def startsWith_def
        isRadixDigit_def digit_value_def digits_value_def Let_def)
  have "authorizedChatIds (new_TradingBot (Some ''123, 0x1f,-7,,abc'')) = {123, 31, - 7}"
    by (simp add: new_TradingBot_def ids)
  with none authorizedChatIds_built [of "Some ''abc, x1,''"] show ?thesis
    by blast
qed

section \<open>Resolving the trading contract\<close>

lemma findContractAddress_data:
  assumes "queryContract env = Inr (Some data)"
  shows "snd (findContractAddress env tokenId) =
     (case find (\<lambda>c. first_token_id c = tokenId) data of
        None \<Rightarrow>
          Inl (Error (''Failed to find contract for token '' @ tokenId @
                      '': No contract found for token '' @ tokenId))
      | Some c \<Rightarrow> Inr (bech32 c))"
  using assms
  by (simp add: findContractAddress_def scQuery_eq throw_def ret_def split: option.splits)

text \<open>
  C5. When the remote query returns a list of bonding metadata,
  \<^verbatim>\<open>findContractAddress\<close> returns the address of the first entry whose first token
  id is the requested one (an entry at index \<open>i\<close> with no match before it), and fails
  with the error "No contract found" (wrapped by "Failed to find contract") when no
  entry matches.
\<close>

theorem findContractAddress_first_match:
  assumes "queryContract env = Inr (Some data)"
  shows "(\<forall>i < length data.
            first_token_id (data ! i) = tokenId \<and>
            (\<forall>j < i. first_token_id (data ! j) \<noteq> tokenId) \<longrightarrow>
            snd (findContractAddress env tokenId) = Inr (bech32 (data ! i))) \<and>
         ((\<forall>c \<in> set data. first_token_id c \<noteq> tokenId) \<longrightarrow>
            snd (findContractAddress env tokenId) =
              Inl (Error (''Failed to find contract for token '' @ tokenId @
                          '': No contract found for token '' @ tokenId)))"
proof (intro conjI allI impI)
  fix i
  assume i: "i < length data"
    and m: "first_token_id (data ! i) = tokenId \<and>
            (\<forall>j < i. first_token_id (data ! j) \<noteq> tokenId)"
  then have "find (\<lambda>c. first_token_id c = tokenId) data = Some (data ! i)"
    by (auto simp: find_Some_iff)
  then show "snd (findContractAddress env tokenId) = Inr (bech32 (data ! i))"
    by (simp add: findContractAddress_data [OF assms])
next
  assume "\<forall>c \<in> set data. first_token_id c \<noteq> tokenId"
  then have "find (\<lambda>c. first_token_id c = tokenId) data = None"
    by (auto simp: find_None_iff)
  then show "snd (findContractAddress env tokenId) =
      Inl (Error (''Failed to find contract for token '' @ tokenId @
                  '': No contract found for token '' @ tokenId))"
    by (simp add: findContractAddress_data [OF assms])
qed

theorem findContractAddress_first_match_witness:
  "snd (findContractAddress (example_env []) ''TKN-1'') = Inr ''erd1qqqqqqqqqqfirst'' \<and>
   snd (findContractAddress (example_env []) ''TKN-2'') = Inr ''erd1qqqqqqqqqqother'' \<and>
   snd (findContractAddress (example_env []) ''TKN-9'') =
     Inl (Error ''Failed to find contract for token TKN-9: No contract found for token TKN-9'')"
proof -
  have q: "queryContract (example_env []) = Inr (Some example_metadata)"
    by (simp add: example_env_def)
  have first: "snd (findContractAddress (example_env []) ''TKN-1'') =
      Inr (bech32 (example_metadata ! 0))"
    using findContractAddress_first_match [OF q, of "''TKN-1''", THEN conjunct1, rule_format, of 0]
    by (simp add: example_metadata_def)
  have other: "snd (findContractAddress (example_env []) ''TKN-2'') =
      Inr (bech32 (example_metadata ! 1))"
    using findContractAddress_first_match [OF q, of "''TKN-2''", THEN conjunct1, rule_format, of 1]
    by (simp add: example_metadata_def)
  have absent: "snd (findContractAddress (example_env []) ''TKN-9'') =
      Inl (Error (''Failed to find contract for token '' @ ''TKN-9'' @
                  '': No contract found for token '' @ ''TKN-9''))"
    using findContractAddress_first_match [OF q, of "''TKN-9''", THEN conjunct2]
    by (simp add: example_metadata_def)
  from first other absent show ?thesis
    by (simp add: example_metadata_def)
qed


section \<open>Dispatch of commands\<close>

text \<open>
  C1. For a bot with the listeners the constructor registers and a non-empty set of
  authorized chats, a message from a chat outside the set produces nothing but the
  unauthorized reply (so no query, balance lookup or contract call), and a message whose
  text starts with a slash is answered by exactly that one reply.
\<close>

theorem unauthorized_rejected:
  assumes "listeners this = setupCommandHandlers"
    and "authorizedChatIds this \<noteq> {}"
    and "chat_id msg \<notin> authorizedChatIds this"
  shows "(\<forall>ev \<in> set (processUpdate this env msg). ev = SendMessage (chat_id msg) Unauthorized) \<and>
         (\<forall>t. msg_text msg = Some t \<and> startsWith t ''/'' \<longrightarrow>
              processUpdate this env msg = [SendMessage (chat_id msg) Unauthorized])"
proof -
  have auth: "isAuthorized this (chat_id msg) = ([], False)"
    using assms by (simp add: isAuthorized_def)
  have cb: "callback this env h msg m = []" if "h \<noteq> OnChatId" for h m
    using that auth
    by (cases h) (simp_all add: on_help_def on_order_def on_start_def on_address_def)
  have step: "(case regexp_exec (regexp_of h) t of
                 None \<Rightarrow> []
               | Some match1 \<Rightarrow> callback this env h msg match1) = []"
    if "h \<noteq> OnChatId" for h t
    using cb [OF that] by (simp split: option.splits)
  have texts: "concat (map (\<lambda>h. case regexp_exec (regexp_of h) t of
                                    None \<Rightarrow> []
                                  | Some match1 \<Rightarrow> callback this env h msg match1)
                           (filter (\<lambda>h. h \<noteq> OnMessage) (listeners this))) = []" for t
    using assms(1) step [of OnHelp t] step [of OnBuy t] step [of OnSell t]
      step [of OnStart t] step [of OnAddress t]
    by (simp add: setupCommandHandlers_def)
  have mw: "concat (map (\<lambda>h. on_message this msg) (filter (\<lambda>h. h = OnMessage) (listeners this)))
      = on_message this msg"
    using assms(1) by (simp add: setupCommandHandlers_def)
  have pu: "processUpdate this env msg = on_message this msg"
    unfolding processUpdate_def mw by (simp add: texts split: option.splits)
  show ?thesis
    unfolding pu by (simp add: on_message_def auth split: option.splits)
qed

lemma chatIds_of_examples:
  "chatIds_of ''7'' = [7]" "chatIds_of ''42'' = [42]"
  by (simp_all add: chatIds_of_def parseInt_def trim_def isWhiteSpace_def startsWith_def
      isRadixDigit_def digit_value_def digits_value_def Let_def)

theorem unauthorized_rejected_witness:
  "processUpdate (new_TradingBot (Some ''7'')) (example_env example_wallet)
     \<lparr>chat_id = 42, msg_text = Some ''/buy TKN-1''\<rparr> = [SendMessage 42 Unauthorized]"
proof -
  let ?bot = "new_TradingBot (Some ''7'')"
  let ?msg = "\<lparr>chat_id = 42, msg_text = Some ''/buy TKN-1''\<rparr>"
  have l: "listeners ?bot = setupCommandHandlers"
    by (simp add: new_TradingBot_def)
  have ne: "authorizedChatIds ?bot \<noteq> {}"
    by (simp add: new_TradingBot_def chatIds_of_examples)
  have out: "chat_id ?msg \<notin> authorizedChatIds ?bot"
    by (simp add: new_TradingBot_def chatIds_of_examples)
  from unauthorized_rejected [OF l ne out, of "example_env example_wallet",
      THEN conjunct2, rule_format, of "''/buy TKN-1''"]
  show ?thesis
    by (simp add: startsWith_def)
qed

text \<open>
  C8 (the code does not do this). The listener of /chatid is defined by
  \<^verbatim>\<open>setupAdditionalCommands\<close>, which the constructor never calls: no bot has it
  registered. A /chatid message from a chat outside the set of authorized chats gets
  the unauthorized reply, and one from an authorized chat gets no reply.
\<close>

theorem chatid_not_registered:
  "processUpdate (new_TradingBot (Some ''7'')) env \<lparr>chat_id = 42, msg_text = Some ''/chatid''\<rparr>
     = [SendMessage 42 Unauthorized] \<and>
   processUpdate (new_TradingBot (Some ''42'')) env \<lparr>chat_id = 42, msg_text = Some ''/chatid''\<rparr>
     = [] \<and>
   OnChatId \<notin> set (listeners (new_TradingBot v))"
  by (simp add: processUpdate_def new_TradingBot_def chatIds_of_examples
      setupCommandHandlers_def on_message_def isAuthorized_def startsWith_def)

section \<open>Validation of the arguments\<close>

lemma split_ws_from_nonempty: "split_ws_from cur s in_sep \<noteq> []"
  by (induction s arbitrary: cur in_sep) auto

lemma hd_split_ws_from:
  "hd (split_ws_from cur s False) = rev cur @ takeWhile (\<lambda>c. \<not> isWhiteSpace c) s"
  by (induction s arbitrary: cur) auto

lemma hd_split_ws: "hd (split_ws s) = takeWhile (\<lambda>c. \<not> isWhiteSpace c) s"
  by (simp add: split_ws_def hd_split_ws_from)

lemma trim_head: "trim s \<noteq> [] \<Longrightarrow> \<not> isWhiteSpace (hd (trim s))"
proof -
  assume ne: "trim s \<noteq> []"
  let ?d = "dropWhile isWhiteSpace s"
  have d: "?d = trim s @ rev (takeWhile isWhiteSpace (rev ?d))"
    unfolding trim_def by (metis rev_append rev_rev_ident takeWhile_dropWhile_id)
  with ne have "hd (trim s) = hd ?d"
    by (metis hd_append2)
  moreover have "?d \<noteq> []" using d ne by (metis append_is_Nil_conv)
  ultimately show ?thesis
    by (metis hd_dropWhile)
qed

lemma validate_Inr:
  "validate command match1 = Inr payload \<Longrightarrow>
     token payload = takeWhile (\<lambda>c. \<not> isWhiteSpace c) (trim match1) \<and>
     amount payload \<noteq> Some NaN"
  unfolding validate_def
  using hd_split_ws [of "trim match1"]
  by (auto simp: Let_def isNaN_def split: if_splits list.splits option.splits)

lemmas eval_validate =
  validate_def trim_def split_ws_def isWhiteSpace_def parseFloat_def startsWith_def
  isRadixDigit_def digit_value_def digits_value_def exponent_part_def isNaN_def Let_def

text \<open>
  C3, as the code has it. The claim fails where the amount is not finite:
  \<^verbatim>\<open>Infinity\<close> is accepted, and so is a number followed by other characters.
\<close>

theorem validate_accepts_non_finite:
  "validate Buy ''TKN-1 Infinity'' = Inr \<lparr>token = ''TKN-1'', amount = Some PosInf\<rparr> \<and>
   validate Buy ''TKN-1 100abc'' = Inr \<lparr>token = ''TKN-1'', amount = Some (Fin 100)\<rparr>"
  by (simp add: eval_validate)

text \<open>
  C3, amended. For an argument text that is empty or has a character other than white
  space, the handler replies with the usage text exactly when the argument text is
  empty, and with "Invalid amount provided" exactly when an amount string is given and
  \<^verbatim>\<open>parseFloat\<close> reads no number from it; it has no other reply. The empty text
  gets the usage reply, \<^verbatim>\<open>TOKEN-1 abc\<close> the invalid-amount reply, and
  \<^verbatim>\<open>TOKEN-1 100\<close> gives the payload with token TOKEN-1 and amount 100, which an
  authorized chat's handler hands to \<^verbatim>\<open>handleCommand\<close>.
\<close>

theorem validate_fails_iff:
  assumes "match1 = [] \<or> trim match1 \<noteq> []"
  shows "(validate command match1 = Inl (UsageErrorText command)) = (match1 = []) \<and>
         (validate command match1 = Inl InvalidAmountProvided) =
           (match1 \<noteq> [] \<and>
            (\<exists>a. 1 < length (split_ws (trim match1)) \<and> split_ws (trim match1) ! 1 = a \<and>
                 a \<noteq> [] \<and> isNaN (parseFloat a))) \<and>
         (\<forall>reply. validate command match1 = Inl reply \<longrightarrow>
            reply = UsageErrorText command \<or> reply = InvalidAmountProvided) \<and>
         validate Buy [] = Inl (UsageErrorText Buy) \<and>
         validate Buy ''TOKEN-1 abc'' = Inl InvalidAmountProvided \<and>
         validate Buy ''TOKEN-1 100'' = Inr \<lparr>token = ''TOKEN-1'', amount = Some (Fin 100)\<rparr> \<and>
         (snd (isAuthorized this (chat_id msg)) \<longrightarrow>
            on_order this env Buy msg ''TOKEN-1 100'' =
              fst (isAuthorized this (chat_id msg)) @
              fst (handleCommand env Buy msg ''TOKEN-1'' (Some (Fin 100))))"
proof -
  have usage: "(validate command match1 = Inl (UsageErrorText command)) = (match1 = [])"
    unfolding validate_def
    using split_ws_from_nonempty [of "[]" "trim match1" False]
    by (auto simp: Let_def split_ws_def split: list.splits option.splits)
  have invalid: "(validate command match1 = Inl InvalidAmountProvided) =
           (match1 \<noteq> [] \<and>
            (\<exists>a. 1 < length (split_ws (trim match1)) \<and> split_ws (trim match1) ! 1 = a \<and>
                 a \<noteq> [] \<and> isNaN (parseFloat a)))"
    unfolding validate_def
    using split_ws_from_nonempty [of "[]" "trim match1" False]
    by (auto simp: Let_def split_ws_def split: list.splits option.splits)
  have replies: "\<forall>reply. validate command match1 = Inl reply \<longrightarrow>
            reply = UsageErrorText command \<or> reply = InvalidAmountProvided"
    unfolding validate_def
    by (auto simp: Let_def split: if_splits list.splits option.splits)
  have ex1: "validate Buy [] = Inl (UsageErrorText Buy)"
    by (simp add: validate_def)
  have ex2: "validate Buy ''TOKEN-1 abc'' = Inl InvalidAmountProvided"
    by (simp add: eval_validate)
  have ex3: "validate Buy ''TOKEN-1 100'' = Inr \<lparr>token = ''TOKEN-1'', amount = Some (Fin 100)\<rparr>"
    by (simp add: eval_validate)
  have d: "snd (isAuthorized this (chat_id msg)) \<longrightarrow>
            on_order this env Buy msg ''TOKEN-1 100'' =
              fst (isAuthorized this (chat_id msg)) @
              fst (handleCommand env Buy msg ''TOKEN-1'' (Some (Fin 100)))"
    using ex3 by (cases "isAuthorized this (chat_id msg)") (simp add: on_order_def)
  show ?thesis
    by (intro conjI) (rule usage invalid replies ex1 ex2 ex3 d)+
qed

theorem validate_fails_iff_witness:
  "validate Sell '' TKN-2 x9'' = Inl InvalidAmountProvided \<and>
   validate Sell '' TKN-2 9x'' \<noteq> Inl InvalidAmountProvided \<and>
   validate Sell '' TKN-2 9x'' \<noteq> Inl (UsageErrorText Sell)"
proof -
  have h1: "'' TKN-2 x9'' = [] \<or> trim '' TKN-2 x9'' \<noteq> []"
    by (simp add: trim_def isWhiteSpace_def)
  have h2: "'' TKN-2 9x'' = [] \<or> trim '' TKN-2 9x'' \<noteq> []"
    by (simp add: trim_def isWhiteSpace_def)
  have s1: "split_ws (trim '' TKN-2 x9'') = [''TKN-2'', ''x9'']"
    by (simp add: trim_def split_ws_def isWhiteSpace_def)
  have s2: "split_ws (trim '' TKN-2 9x'') = [''TKN-2'', ''9x'']"
    by (simp add: trim_def split_ws_def isWhiteSpace_def)
  have p1: "isNaN (parseFloat ''x9'')" and p2: "\<not> isNaN (parseFloat ''9x'')"
    by (simp_all add: eval_validate)
  have r1: "\<exists>a. 1 < length (split_ws (trim '' TKN-2 x9'')) \<and>
                split_ws (trim '' TKN-2 x9'') ! 1 = a \<and> a \<noteq> [] \<and> isNaN (parseFloat a)"
    using p1 by (simp add: s1)
  have r2: "\<not> (\<exists>a. 1 < length (split_ws (trim '' TKN-2 9x'')) \<and>
                split_ws (trim '' TKN-2 9x'') ! 1 = a \<and> a \<noteq> [] \<and> isNaN (parseFloat a))"
    using p2 by (simp add: s2)
  from validate_fails_iff [OF h1, of Sell, THEN conjunct2, THEN conjunct1] r1
  have a: "validate Sell '' TKN-2 x9'' = Inl InvalidAmountProvided"
    by simp
  from validate_fails_iff [OF h2, of Sell, THEN conjunct2, THEN conjunct1] r2
  have b: "validate Sell '' TKN-2 9x'' \<noteq> Inl InvalidAmountProvided"
    by simp
  from validate_fails_iff [OF h2, of Sell, THEN conjunct1]
  have c: "validate Sell '' TKN-2 9x'' \<noteq> Inl (UsageErrorText Sell)"
    by simp
  from a b c show ?thesis by simp
qed

text \<open>
  C9, as the code has it. The claim fails where the amount is not positive: a negative
  amount and a zero amount pass the validation.
\<close>

theorem dispatched_amount_not_positive:
  "validate Sell '' TKN-1 -5'' = Inr \<lparr>token = ''TKN-1'', amount = Some (Fin (- 5))\<rparr> \<and>
   validate Sell '' TKN-1 0'' = Inr \<lparr>token = ''TKN-1'', amount = Some (Fin 0)\<rparr>"
  by (simp add: eval_validate)

text \<open>
  C9, amended. Every payload the validation lets through, which is what an authorized
  chat's handler hands to \<^verbatim>\<open>handleCommand\<close>, has an amount that, when present, is
  not \<^verbatim>\<open>NaN\<close>, and a token without white space that is not empty when the argument
  text has a character other than white space.
\<close>

theorem dispatched_payload:
  assumes "validate command match1 = Inr payload"
  shows "amount payload \<noteq> Some NaN \<and>
         (\<forall>c \<in> set (token payload). \<not> isWhiteSpace c) \<and>
         (trim match1 \<noteq> [] \<longrightarrow> token payload \<noteq> []) \<and>
         (snd (isAuthorized this (chat_id msg)) \<longrightarrow>
            on_order this env command msg match1 =
              fst (isAuthorized this (chat_id msg)) @
              fst (handleCommand env command msg (token payload) (amount payload)))"
proof -
  note v = validate_Inr [OF assms]
  have ws: "\<forall>c \<in> set (token payload). \<not> isWhiteSpace c"
    using v by (auto dest: set_takeWhileD)
  have ne: "token payload \<noteq> []" if "trim match1 \<noteq> []"
    using v trim_head [OF that] that by (cases "trim match1") auto
  have d: "on_order this env command msg match1 =
              fst (isAuthorized this (chat_id msg)) @
              fst (handleCommand env command msg (token payload) (amount payload))"
    if "snd (isAuthorized this (chat_id msg))"
    using that assms by (cases "isAuthorized this (chat_id msg)") (simp add: on_order_def)
  from v ws ne d show ?thesis by blast
qed

theorem dispatched_payload_witness:
  "validate Buy '' TKN-1 2.5'' = Inr \<lparr>token = ''TKN-1'', amount = Some (Fin (5 / 2))\<rparr> \<and>
   on_order (new_TradingBot (Some ''42'')) (example_env example_wallet) Buy
       \<lparr>chat_id = 42, msg_text = Some ''/buy TKN-1 2.5''\<rparr> '' TKN-1 2.5'' =
     fst (handleCommand (example_env example_wallet) Buy
            \<lparr>chat_id = 42, msg_text = Some ''/buy TKN-1 2.5''\<rparr> ''TKN-1'' (Some (Fin (5 / 2))))"
proof -
  let ?bot = "new_TradingBot (Some ''42'')"
  let ?msg = "\<lparr>chat_id = 42, msg_text = Some ''/buy TKN-1 2.5''\<rparr>"
  have v: "validate Buy '' TKN-1 2.5'' = Inr \<lparr>token = ''TKN-1'', amount = Some (Fin (5 / 2))\<rparr>"
    by (simp add: eval_validate)
  have auth: "isAuthorized ?bot (chat_id ?msg) = ([], True)"
    by (simp add: isAuthorized_def new_TradingBot_def chatIds_of_examples)
  from dispatched_payload [OF v, of ?bot ?msg "example_env example_wallet"] auth v
  show ?thesis by simp
qed

section \<open>Orders\<close>







section \<open>The amount of a trade\<close>





section \<open>Errors of an order\<close>













end
